theory Spec2Isabelle
  imports Main "HOL-Library.Char_ord" "HOL-Library.List_Lexorder" "HOL-Library.Multiset"
begin

section \<open>Python strings used by the downloader\<close>

text \<open>
  The downloader (\<^verbatim>\<open>src/m3u8_downloader.py\<close>) formats integers into strings
  (\<^verbatim>\<open>f"{width}x{height}"\<close>, \<^verbatim>\<open>f"segment_{index:05d}.ts"\<close>), parses them back
  (\<^verbatim>\<open>int(...)\<close>), splits on a character and sorts file names. Strings are
  \<^typ>\<open>string\<close>; they are compared as Python compares \<^verbatim>\<open>str\<close>: lexicographically,
  character by character, a proper prefix being smaller.
\<close>

definition digit_char :: "nat \<Rightarrow> char" where
  "digit_char d = ''0123456789'' ! d"

text \<open>\<^verbatim>\<open>str(n)\<close> for a non-negative integer: decimal, no leading zeros.\<close>

fun str_nat :: "nat \<Rightarrow> string" where
  "str_nat n = (if n < 10 then [digit_char n] else str_nat (n div 10) @ [digit_char (n mod 10)])"

declare str_nat.simps [simp del]

text \<open>\<^verbatim>\<open>str(i)\<close> for any integer.\<close>

definition str_int :: "int \<Rightarrow> string" where
  "str_int i = (if i < 0 then CHR ''-'' # str_nat (nat (- i)) else str_nat (nat i))"

text \<open>The format specification \<^verbatim>\<open>{index:05d}\<close>: zero-padded on the left to width 5,
  longer numbers are not truncated.\<close>

definition format_05d :: "nat \<Rightarrow> string" where
  "format_05d n = (let s = str_nat n in replicate (5 - length s) CHR ''0'' @ s)"

definition is_digit :: "char \<Rightarrow> bool" where
  "is_digit c = (48 \<le> (of_char c :: nat) \<and> (of_char c :: nat) \<le> 57)"

definition digit_val :: "char \<Rightarrow> nat" where
  "digit_val c = of_char c - 48"

fun parse_digits :: "nat \<Rightarrow> string \<Rightarrow> nat option" where
  "parse_digits acc [] = Some acc"
| "parse_digits acc (c # cs) =
     (if is_digit c then parse_digits (10 * acc + digit_val c) cs else None)"

definition nat_of_str :: "string \<Rightarrow> nat option" where
  "nat_of_str s = (if s = [] then None else parse_digits 0 s)"

text \<open>\<^verbatim>\<open>int(s)\<close> on an optional minus sign followed by ASCII digits; \<open>None\<close> stands for
  the \<^verbatim>\<open>ValueError\<close> raised on anything else.\<close>

definition int_of_str :: "string \<Rightarrow> int option" where
  "int_of_str s =
     (case s of
        [] \<Rightarrow> None
      | c # r \<Rightarrow> if c = CHR ''-'' then map_option (\<lambda>n. - int n) (nat_of_str r)
                 else map_option int (nat_of_str s))"

text \<open>\<^verbatim>\<open>s.split(c)\<close> for a one-character separator.\<close>

fun split_on :: "char \<Rightarrow> string \<Rightarrow> string list" where
  "split_on c [] = [[]]"
| "split_on c (x # xs) =
     (if x = c then [] # split_on c xs
      else (case split_on c xs of [] \<Rightarrow> [[x]] | y # ys \<Rightarrow> (x # y) # ys))"

text \<open>\<^verbatim>\<open>str.lower\<close>, \<^verbatim>\<open>str.strip\<close>, \<^verbatim>\<open>str.isdigit\<close> and the substring
  test \<^verbatim>\<open>a in b\<close>, on ASCII text.\<close>

definition lower_char :: "char \<Rightarrow> char" where
  "lower_char c = (if 65 \<le> (of_char c :: nat) \<and> (of_char c :: nat) \<le> 90
                   then char_of ((of_char c :: nat) + 32) else c)"

definition lower :: "string \<Rightarrow> string" where
  "lower s = map lower_char s"

definition is_space :: "char \<Rightarrow> bool" where
  "is_space c = ((of_char c :: nat) = 32 \<or> (9 \<le> (of_char c :: nat) \<and> (of_char c :: nat) \<le> 13))"

definition strip :: "string \<Rightarrow> string" where
  "strip s = rev (dropWhile is_space (rev (dropWhile is_space s)))"

definition isdigit :: "string \<Rightarrow> bool" where
  "isdigit s = (s \<noteq> [] \<and> list_all is_digit s)"

fun starts_with :: "string \<Rightarrow> string \<Rightarrow> bool" where
  "starts_with [] s = True"
| "starts_with (p # ps) [] = False"
| "starts_with (p # ps) (c # cs) = (p = c \<and> starts_with ps cs)"

fun contains :: "string \<Rightarrow> string \<Rightarrow> bool" where
  "contains p [] = (p = [])"
| "contains p (c # cs) = (starts_with p (c # cs) \<or> contains p cs)"

section \<open>Data model\<close>

text \<open>What the \<^verbatim>\<open>m3u8\<close> library hands to the downloader: a parsed playlist has
  \<^verbatim>\<open>playlists\<close> (the variants of a master playlist, each with a \<^verbatim>\<open>uri\<close> and a
  \<^verbatim>\<open>stream_info\<close> holding \<^verbatim>\<open>resolution\<close> and \<^verbatim>\<open>bandwidth\<close>) and
  \<^verbatim>\<open>segments\<close> (each with a \<^verbatim>\<open>uri\<close>).\<close>

record variant =
  v_uri :: string
  resolution :: "(int \<times> int) option"
  bandwidth :: "int option"

record segment =
  uri :: string

record m3u8 =
  playlists :: "variant list"
  segments :: "segment list"

text \<open>The dictionaries appended to \<^verbatim>\<open>qualities\<close> in \<^verbatim>\<open>_select_quality\<close>.\<close>

record quality =
  q_url :: string
  q_resolution :: string
  q_bandwidth :: "int option"
  q_playlist :: variant

text \<open>Exceptions that the modelled paths can raise.\<close>

datatype exn = AttributeError | IndexError | ValueError | EOFError | TypeError | OSError

text \<open>The calls of \<^verbatim>\<open>session.get\<close> in a run: the \<open>k\<close>-th call of
  \<^verbatim>\<open>_parse_playlist\<close> and the call made by the task of the segment with a given
  index. The network may answer two calls differently even when they name the same
  address.\<close>

datatype request = Playlist nat | Segment nat

text \<open>The outcome of \<^verbatim>\<open>session.get(url, ...)\<close> followed by
  \<^verbatim>\<open>raise_for_status()\<close>: a response, or one of the exceptions the source
  distinguishes. A response carries the final URL of the request (after redirects) and
  its body.\<close>

record response =
  resp_url :: string
  resp_body :: string

datatype http_result =
    Response response
  | HTTPError nat
  | ConnectionError
  | Timeout
  | RequestError

record parse_result =
  scheme :: string
  netloc :: string
  path :: string
  params :: string
  query :: string
  fragment :: string

datatype codec = Copy | Transcode

text \<open>The files the downloader opens for writing: the file of the segment with a given
  index, and \<^verbatim>\<open>concat.txt\<close> in either of the two conversion attempts. What is
  written is the payload of a segment or the lines of \<^verbatim>\<open>concat.txt\<close>.\<close>

datatype out_file = SegmentFile nat | ConcatFile codec

datatype content = Bytes string | Lines "string list"

text \<open>The collaborators of the downloader, outside the repository. Each is given by its
  outcome: the HTTP session; the \<^verbatim>\<open>m3u8\<close> parser (\<open>None\<close> when
  \<^verbatim>\<open>m3u8.loads\<close> raises); \<^verbatim>\<open>urlparse\<close> and \<^verbatim>\<open>urljoin\<close> (\<open>None\<close> when
  they raise \<^verbatim>\<open>ValueError\<close>, as on a malformed address); \<^verbatim>\<open>tempfile\<close>
  (\<open>mkdtemp_suffix\<close> is \<open>None\<close> when \<^verbatim>\<open>mkdtemp\<close> raises \<^verbatim>\<open>OSError\<close>);
  opening and writing a file (\<open>False\<close> when it raises \<^verbatim>\<open>OSError\<close>);
  \<^verbatim>\<open>ffmpeg\<close> (\<open>False\<close> when \<^verbatim>\<open>ffmpeg.run\<close> raises) and
  \<^verbatim>\<open>shutil.rmtree\<close> (\<open>False\<close> when it raises).\<close>

record env =
  session_get :: "request \<Rightarrow> string \<Rightarrow> http_result"
  m3u8_loads :: "string \<Rightarrow> m3u8 option"
  urlparse :: "string \<Rightarrow> parse_result option"
  urljoin :: "string \<Rightarrow> string \<Rightarrow> string option"
  gettempdir :: string
  mkdtemp_suffix :: "string option"
  write_ok :: "out_file \<Rightarrow> bool"
  ffmpeg_run :: "codec \<Rightarrow> string list \<Rightarrow> string \<Rightarrow> bool"
  rmtree_ok :: "string \<Rightarrow> bool"

text \<open>The error and warning messages the downloader prints.\<close>

datatype msg =
    HttpErrorMsg nat
  | ConnectionErrorMsg
  | TimeoutMsg
  | ParseErrorMsg
  | FailedToParse
  | NoVariantsMsg
  | QualityNotFound string
  | InvalidChoice
  | Cancelled
  | NoSegments
  | SegmentError nat
  | FailedSegments nat
  | NoSegmentsToConvert
  | ConversionError
  | AlternativeFailed
  | CleanupWarning
  | ErrorMsg exn

text \<open>The state: the two attributes of \<^verbatim>\<open>M3U8Downloader\<close> (\<^verbatim>\<open>temp_dir\<close>,
  \<^verbatim>\<open>segment_files\<close>), the progress bar of \<^verbatim>\<open>_download_segments\<close>, and what the
  run does to the outside: the requests sent (which call, which address), the files
  written, the directories that exist, the messages printed, the invocations of ffmpeg
  (codec, ordered list of the files named in \<^verbatim>\<open>concat.txt\<close>, output path), the calls
  of \<^verbatim>\<open>shutil.rmtree\<close> and the number of times \<^verbatim>\<open>_cleanup\<close> ran.\<close>

record state =
  temp_dir :: "string option"
  segment_files :: "string list"
  pbar :: nat
  requests :: "(request \<times> string) list"
  written :: "(string \<times> content) list"
  dirs :: "string set"
  stdout :: "msg list"
  ffmpeg_calls :: "(codec \<times> string list \<times> string) list"
  rmtree_calls :: "string list"
  cleanups :: nat

text \<open>\<^verbatim>\<open>M3U8Downloader()\<close>: \<^verbatim>\<open>__init__\<close> sets \<^verbatim>\<open>temp_dir = None\<close> and
  \<^verbatim>\<open>segment_files = []\<close>; nothing has happened yet.\<close>

definition new_downloader :: state where
  "new_downloader =
     \<lparr>temp_dir = None, segment_files = [], pbar = 0, requests = [], written = [],
      dirs = {}, stdout = [], ffmpeg_calls = [], rmtree_calls = [], cleanups = 0\<rparr>"

definition print :: "msg \<Rightarrow> state \<Rightarrow> state" where
  "print m s = s\<lparr>stdout := stdout s @ [m]\<rparr>"

text \<open>\<^verbatim>\<open>os.path.join(d, name)\<close> for a directory path without trailing separator.\<close>

definition path_join :: "string \<Rightarrow> string \<Rightarrow> string" where
  "path_join d name = d @ ''/'' @ name"

section \<open>The thread pool\<close>

text \<open>
  \<^verbatim>\<open>ThreadPoolExecutor(max_workers=k)\<close> keeps the submitted tasks in a queue, in
  submission order; a free worker takes the task at the head of the queue; at most \<open>k\<close>
  tasks run at a time. Which of the running tasks finishes next is decided by the
  scheduler and the network: \<open>sched step\<close> picks it (modulo the number of running
  tasks) at the \<open>step\<close>-th completion. \<open>pool_completion\<close> is the order in which the
  tasks complete. A task is taken to be atomic: its effects on the shared state happen
  when it completes.
\<close>

function pool_completion :: "nat \<Rightarrow> (nat \<Rightarrow> nat) \<Rightarrow> nat \<Rightarrow> 'a list \<Rightarrow> 'a list \<Rightarrow> 'a list" where
  "pool_completion k sched step queue running =
     (if running @ take (k - length running) queue = [] then []
      else (running @ take (k - length running) queue)
              ! (sched step mod length (running @ take (k - length running) queue))
           # pool_completion k sched (Suc step) (drop (k - length running) queue)
               (take (sched step mod length (running @ take (k - length running) queue))
                  (running @ take (k - length running) queue)
                @ drop (Suc (sched step mod length (running @ take (k - length running) queue)))
                    (running @ take (k - length running) queue)))"
  by pat_completeness auto
termination
proof (relation "measure (\<lambda>(k, sched, step, queue, running). length queue + length running)")
  show "wf (measure (\<lambda>(k, sched, step, queue, running). length queue + length running))"
    by simp
next
  fix k :: nat and sched :: "nat \<Rightarrow> nat" and step :: nat and queue running :: "'a list"
  let ?r = "running @ take (k - length running) queue"
  let ?j = "sched step mod length ?r"
  assume ne: "?r \<noteq> []"
  then have j: "?j < length ?r" by simp
  have "length (take ?j ?r @ drop (Suc ?j) ?r) = length ?r - 1"
    using j by (simp only: length_append length_take length_drop) linarith
  moreover have "length (drop (k - length running) queue) + length ?r = length queue + length running"
    by (simp only: length_append length_take length_drop)
  moreover have "0 < length ?r" using ne by simp
  ultimately have "length (drop (k - length running) queue) + length (take ?j ?r @ drop (Suc ?j) ?r)
      < length queue + length running" by linarith
  then show "((k, sched, Suc step, drop (k - length running) queue, take ?j ?r @ drop (Suc ?j) ?r),
              (k, sched, step, queue, running))
             \<in> measure (\<lambda>(k, sched, step, queue, running). length queue + length running)"
    by (simp only: in_measure prod.case)
qed

declare pool_completion.simps [simp del]

section \<open>The downloader\<close>

subsection \<open>\<^verbatim>\<open>_parse_playlist\<close>\<close>

text \<open>The \<open>k\<close>-th call of \<^verbatim>\<open>_parse_playlist\<close>. Every exception is caught and
  turned into \<^verbatim>\<open>None\<close>.\<close>

definition parse_playlist :: "env \<Rightarrow> nat \<Rightarrow> string \<Rightarrow> state \<Rightarrow> m3u8 option \<times> state" where
  "parse_playlist e k url s =
     (let s1 = s\<lparr>requests := requests s @ [(Playlist k, url)]\<rparr> in
      case session_get e (Playlist k) url of
        Response r \<Rightarrow>
          (case m3u8_loads e (resp_body r) of
             Some playlist \<Rightarrow> (Some playlist, s1)
           | None \<Rightarrow> (None, print ParseErrorMsg s1))
      | HTTPError code \<Rightarrow> (None, print (HttpErrorMsg code) s1)
      | ConnectionError \<Rightarrow> (None, print ConnectionErrorMsg s1)
      | Timeout \<Rightarrow> (None, print TimeoutMsg s1)
      | RequestError \<Rightarrow> (None, print ParseErrorMsg s1))"

subsection \<open>\<^verbatim>\<open>_select_quality\<close>\<close>

text \<open>The loop that extracts the available qualities: a variant without resolution is
  skipped.\<close>

fun extract_qualities :: "variant list \<Rightarrow> quality list" where
  "extract_qualities [] = []"
| "extract_qualities (p # ps) =
     (case resolution p of
        None \<Rightarrow> extract_qualities ps
      | Some (width, height) \<Rightarrow>
          \<lparr>q_url = v_uri p, q_resolution = str_int width @ ''x'' @ str_int height,
           q_bandwidth = bandwidth p, q_playlist = p\<rparr> # extract_qualities ps)"

text \<open>The sort key \<^verbatim>\<open>int(x['resolution'].split('x')[1])\<close>.\<close>

definition height_key :: "quality \<Rightarrow> exn + int" where
  "height_key q =
     (case split_on CHR ''x'' (q_resolution q) of
        a # h # rest \<Rightarrow> (case int_of_str h of Some k \<Rightarrow> Inr k | None \<Rightarrow> Inl ValueError)
      | _ \<Rightarrow> Inl IndexError)"

fun height_keys :: "quality list \<Rightarrow> exn + int list" where
  "height_keys [] = Inr []"
| "height_keys (q # qs) =
     (case height_key q of
        Inl e \<Rightarrow> Inl e
      | Inr k \<Rightarrow> (case height_keys qs of Inl e \<Rightarrow> Inl e | Inr ks \<Rightarrow> Inr (k # ks)))"

text \<open>\<^verbatim>\<open>list.sort(key=..., reverse=True)\<close>: the keys are computed first, the sort is
  stable, and a reverse sort keeps elements with equal keys in their original order
  (the list is reversed, sorted and reversed again).\<close>

definition sort_reverse :: "('k::linorder \<times> 'a) list \<Rightarrow> 'a list" where
  "sort_reverse kxs = map snd (rev (sort_key fst (rev kxs)))"

definition sort_qualities :: "quality list \<Rightarrow> exn + quality list" where
  "sort_qualities qs =
     (case height_keys qs of
        Inl e \<Rightarrow> Inl e
      | Inr ks \<Rightarrow> Inr (sort_reverse (zip ks qs)))"

text \<open>What arrives on standard input during the interactive selection.\<close>

datatype input = Line string | KeyboardInterrupt

text \<open>The interactive loop; at the end of the input \<^verbatim>\<open>input()\<close> raises
  \<^verbatim>\<open>EOFError\<close>.\<close>

fun interactive :: "quality list \<Rightarrow> input list \<Rightarrow> (exn + quality option) \<times> msg list" where
  "interactive qs [] = (Inl EOFError, [])"
| "interactive qs (KeyboardInterrupt # rest) = (Inr None, [Cancelled])"
| "interactive qs (Line l # rest) =
     (let choice = strip l in
      case (if isdigit choice then nat_of_str choice else None) of
        Some n \<Rightarrow>
          if 1 \<le> n \<and> n \<le> length qs then (Inr (Some (qs ! (n - 1))), [])
          else (case interactive qs rest of (r, ms) \<Rightarrow> (r, InvalidChoice # ms))
      | None \<Rightarrow> (case interactive qs rest of (r, ms) \<Rightarrow> (r, InvalidChoice # ms)))"

text \<open>\<^verbatim>\<open>qualities[0]\<close> and \<^verbatim>\<open>qualities[-1]\<close> raise \<^verbatim>\<open>IndexError\<close> on the empty
  list.\<close>

definition first_quality :: "quality list \<Rightarrow> exn + quality option" where
  "first_quality qs = (case qs of [] \<Rightarrow> Inl IndexError | q # _ \<Rightarrow> Inr (Some q))"

definition last_quality :: "quality list \<Rightarrow> exn + quality option" where
  "last_quality qs = (if qs = [] then Inl IndexError else Inr (Some (last qs)))"

text \<open>The result is the selected URL, \<open>None\<close> for \<^verbatim>\<open>return None\<close>, or the exception
  that escapes; with it the messages printed.\<close>

definition select_quality ::
  "m3u8 \<Rightarrow> string option \<Rightarrow> input list \<Rightarrow> (exn + string option) \<times> msg list" where
  "select_quality master_playlist quality_preference inp =
     (if playlists master_playlist = [] then (Inr None, [NoVariantsMsg])
      else
        case sort_qualities (extract_qualities (playlists master_playlist)) of
          Inl e \<Rightarrow> (Inl e, [])
        | Inr qualities \<Rightarrow>
            (case (if quality_preference = Some ''best'' then (first_quality qualities, [])
                   else if quality_preference = Some ''worst'' then (last_quality qualities, [])
                   else if quality_preference \<noteq> None \<and> quality_preference \<noteq> Some []
                   then (case find (\<lambda>q. contains (lower (the quality_preference))
                                             (lower (q_resolution q))) qualities of
                           Some q \<Rightarrow> (Inr (Some q), [])
                         | None \<Rightarrow> (first_quality qualities,
                                     [QualityNotFound (the quality_preference)]))
                   else interactive qualities inp) of
               (Inl e, ms) \<Rightarrow> (Inl e, ms)
             | (Inr None, ms) \<Rightarrow> (Inr None, ms)
             | (Inr (Some selected), ms) \<Rightarrow> (Inr (Some (q_url selected)), ms)))"

subsection \<open>\<^verbatim>\<open>_download_segments\<close>\<close>

text \<open>The path returned by \<^verbatim>\<open>tempfile.mkdtemp(prefix="m3u8_download_")\<close>.\<close>

definition mkdtemp :: "env \<Rightarrow> string \<Rightarrow> string" where
  "mkdtemp e suffix = path_join (gettempdir e) (''m3u8_download_'' @ suffix)"

definition segment_name :: "nat \<Rightarrow> string" where
  "segment_name index = ''segment_'' @ format_05d index @ ''.ts''"

text \<open>The inner function \<^verbatim>\<open>download_segment(segment, index)\<close>, one task of the pool.
  Any exception in its \<^verbatim>\<open>try\<close> block is caught: the task prints the error and
  returns \<open>False\<close>. The block joins the address (no request is sent when that raises),
  sends the request, joins the file path (\<^verbatim>\<open>os.path.join\<close> raises with
  \<^verbatim>\<open>self.temp_dir\<close> unset), writes the file, and only then appends the file to
  \<^verbatim>\<open>self.segment_files\<close> and advances the progress bar.\<close>

definition download_segment :: "env \<Rightarrow> string \<Rightarrow> nat \<times> segment \<Rightarrow> state \<Rightarrow> bool \<times> state" where
  "download_segment e base_url task s =
     (case task of (index, segment) \<Rightarrow>
        case urljoin e base_url (uri segment) of
          None \<Rightarrow> (False, print (SegmentError index) s)
        | Some segment_url \<Rightarrow>
            let s1 = s\<lparr>requests := requests s @ [(Segment index, segment_url)]\<rparr>
            in case session_get e (Segment index) segment_url of
                 Response r \<Rightarrow>
                   (case temp_dir s1 of
                      None \<Rightarrow> (False, print (SegmentError index) s1)
                    | Some d \<Rightarrow>
                        let segment_file = path_join d (segment_name index)
                        in if write_ok e (SegmentFile index)
                           then (True,
                                 s1\<lparr>written := written s1 @ [(segment_file, Bytes (resp_body r))],
                                    segment_files := segment_files s1 @ [segment_file],
                                    pbar := pbar s1 + 1\<rparr>)
                           else (False, print (SegmentError index) s1))
               | _ \<Rightarrow> (False, print (SegmentError index) s1))"

text \<open>The tasks run to completion one after the other in completion order; the result of
  each future is kept with the index it was submitted with.\<close>

fun run_tasks :: "env \<Rightarrow> string \<Rightarrow> (nat \<times> segment) list \<Rightarrow> state \<Rightarrow> (nat \<times> bool) list \<times> state" where
  "run_tasks e base_url [] s = ([], s)"
| "run_tasks e base_url (t # ts) s =
     (case download_segment e base_url t s of
        (ok, s1) \<Rightarrow>
          (case run_tasks e base_url ts s1 of
             (results, s2) \<Rightarrow> ((fst t, ok) # results, s2)))"

text \<open>The executor block: every segment is submitted with its index, in playlist order,
  and all futures are awaited.\<close>

definition run_pool ::
  "env \<Rightarrow> m3u8 \<Rightarrow> string \<Rightarrow> int \<Rightarrow> (nat \<Rightarrow> nat) \<Rightarrow> state \<Rightarrow> (nat \<times> bool) list \<times> state" where
  "run_pool e playlist base_url max_workers sched s =
     run_tasks e base_url
       (pool_completion (nat max_workers) sched 0 (enumerate 0 (segments playlist)) []) s"

text \<open>\<^verbatim>\<open>tempfile.mkdtemp\<close> may raise; so does
  \<^verbatim>\<open>ThreadPoolExecutor(max_workers=...)\<close> when \<^verbatim>\<open>max_workers <= 0\<close>, and the
  temporary directory and the progress bar exist by then.\<close>

definition download_segments ::
  "env \<Rightarrow> m3u8 \<Rightarrow> string \<Rightarrow> int \<Rightarrow> (nat \<Rightarrow> nat) \<Rightarrow> state \<Rightarrow> (exn + bool) \<times> state" where
  "download_segments e playlist base_url max_workers sched s =
     (if segments playlist = [] then (Inr False, print NoSegments s)
      else
        case mkdtemp_suffix e of
          None \<Rightarrow> (Inl OSError, s)
        | Some suffix \<Rightarrow>
            let s1 = s\<lparr>temp_dir := Some (mkdtemp e suffix),
                       dirs := insert (mkdtemp e suffix) (dirs s)\<rparr>;
                s2 = s1\<lparr>pbar := 0\<rparr>
            in if max_workers \<le> 0 then (Inl ValueError, s2)
               else
                 case run_pool e playlist base_url max_workers sched s2 of
                   (results, s3) \<Rightarrow>
                     let success_count = length (filter snd results)
                     in if success_count \<noteq> length (segments playlist)
                        then (Inr False,
                              print (FailedSegments
                                       (length (segments playlist) - success_count)) s3)
                        else (Inr True, s3))"

subsection \<open>\<^verbatim>\<open>_convert_to_mp4\<close> and \<^verbatim>\<open>_convert_alternative\<close>\<close>

text \<open>The lines of \<^verbatim>\<open>concat.txt\<close>: \<^verbatim>\<open>file '<path>'\<close> for each file, in the
  order given.\<close>

definition concat_lines :: "string list \<Rightarrow> string list" where
  "concat_lines files = map (\<lambda>f. ''file '' @ [CHR 0x27] @ f @ [CHR 0x27]) files"

text \<open>Both conversions write \<^verbatim>\<open>concat.txt\<close> from
  \<^verbatim>\<open>sorted(self.segment_files)\<close> and run ffmpeg on it; ffmpeg reads the files in
  the order of the lines. An exception anywhere in the \<^verbatim>\<open>try\<close> block (joining the
  path with \<^verbatim>\<open>self.temp_dir\<close> unset, writing the file, running ffmpeg) ends the
  attempt.\<close>

definition convert_alternative :: "env \<Rightarrow> string \<Rightarrow> state \<Rightarrow> bool \<times> state" where
  "convert_alternative e output_path s =
     (case temp_dir s of
        None \<Rightarrow> (False, print AlternativeFailed s)
      | Some d \<Rightarrow>
          if \<not> write_ok e (ConcatFile Transcode) then (False, print AlternativeFailed s)
          else
            let s1 = s\<lparr>written := written s
                          @ [(path_join d ''concat.txt'',
                              Lines (concat_lines (sort (segment_files s))))],
                       ffmpeg_calls := ffmpeg_calls s
                          @ [(Transcode, sort (segment_files s), output_path)]\<rparr>
            in if ffmpeg_run e Transcode (sort (segment_files s)) output_path then (True, s1)
               else (False, print AlternativeFailed s1))"

definition convert_to_mp4 :: "env \<Rightarrow> string option \<Rightarrow> state \<Rightarrow> bool \<times> state" where
  "convert_to_mp4 e output_path s =
     (if segment_files s = [] then (False, print NoSegmentsToConvert s)
      else
        let out = (if output_path = None \<or> output_path = Some []
                   then ''downloaded_video_'' @ str_nat (length (segment_files s)) @ ''_segments.mp4''
                   else the output_path)
        in case temp_dir s of
             None \<Rightarrow> convert_alternative e out (print ConversionError s)
           | Some d \<Rightarrow>
               if \<not> write_ok e (ConcatFile Copy)
               then convert_alternative e out (print ConversionError s)
               else
                 let s1 = s\<lparr>written := written s
                               @ [(path_join d ''concat.txt'',
                                   Lines (concat_lines (sort (segment_files s))))],
                            ffmpeg_calls := ffmpeg_calls s
                               @ [(Copy, sort (segment_files s), out)]\<rparr>
                 in if ffmpeg_run e Copy (sort (segment_files s)) out then (True, s1)
                    else convert_alternative e out (print ConversionError s1))"

subsection \<open>\<^verbatim>\<open>_cleanup\<close>\<close>

definition cleanup :: "env \<Rightarrow> state \<Rightarrow> state" where
  "cleanup e s =
     (let s0 = s\<lparr>cleanups := cleanups s + 1\<rparr> in
      case temp_dir s0 of
        None \<Rightarrow> s0
      | Some d \<Rightarrow>
          if d \<noteq> [] \<and> d \<in> dirs s0 then
            let s1 = s0\<lparr>rmtree_calls := rmtree_calls s0 @ [d]\<rparr>
            in if rmtree_ok e d then s1\<lparr>dirs := dirs s1 - {d}\<rparr>
               else print CleanupWarning s1
          else s0)"

subsection \<open>\<^verbatim>\<open>download_m3u8\<close>\<close>

text \<open>The first part of the \<^verbatim>\<open>try\<close> block: the playlist is parsed; a master playlist
  leads to the selection of a variant, whose address is joined to the cleaned master URL
  and parsed in turn. \<open>Inr None\<close> stands for \<^verbatim>\<open>return False\<close>. When
  \<^verbatim>\<open>_parse_playlist\<close> returns \<^verbatim>\<open>None\<close> for the given URL,
  \<^verbatim>\<open>print(playlist.data)\<close> raises \<^verbatim>\<open>AttributeError\<close>. The custom headers are
  part of the session and so of \<open>session_get\<close>.\<close>

definition resolve_playlist ::
  "env \<Rightarrow> string \<Rightarrow> string option \<Rightarrow> input list \<Rightarrow> state \<Rightarrow> (exn + m3u8 option) \<times> state" where
  "resolve_playlist e url quality inp s =
     (case parse_playlist e 0 url s of
        (None, s1) \<Rightarrow> (Inl AttributeError, s1)
      | (Some playlist, s1) \<Rightarrow>
          if playlists playlist \<noteq> [] then
            (case select_quality playlist quality inp of
               (Inl ex, ms) \<Rightarrow> (Inl ex, s1\<lparr>stdout := stdout s1 @ ms\<rparr>)
             | (Inr None, ms) \<Rightarrow> (Inr None, s1\<lparr>stdout := stdout s1 @ ms\<rparr>)
             | (Inr (Some selected_url), ms) \<Rightarrow>
                 if selected_url = [] then (Inr None, s1\<lparr>stdout := stdout s1 @ ms\<rparr>)
                 else
                   (case urlparse e url of
                      None \<Rightarrow> (Inl ValueError, s1\<lparr>stdout := stdout s1 @ ms\<rparr>)
                    | Some parsed_master \<Rightarrow>
                        let cleaned_master_url =
                              scheme parsed_master @ ''://'' @ netloc parsed_master
                              @ path parsed_master
                        in (case urljoin e cleaned_master_url selected_url of
                              None \<Rightarrow> (Inl ValueError, s1\<lparr>stdout := stdout s1 @ ms\<rparr>)
                            | Some fixed_selected_url \<Rightarrow>
                                (case parse_playlist e 1 fixed_selected_url
                                        (s1\<lparr>stdout := stdout s1 @ ms\<rparr>) of
                                   (None, s2) \<Rightarrow> (Inr None, s2)
                                 | (Some playlist2, s2) \<Rightarrow> (Inr (Some playlist2), s2)))))
          else (Inr (Some playlist), s1))"

text \<open>The whole \<^verbatim>\<open>try\<close> block.\<close>

definition download_m3u8_try ::
  "env \<Rightarrow> string \<Rightarrow> string option \<Rightarrow> string option \<Rightarrow> int \<Rightarrow> input list \<Rightarrow> (nat \<Rightarrow> nat)
     \<Rightarrow> state \<Rightarrow> (exn + bool) \<times> state" where
  "download_m3u8_try e url output_path quality max_workers inp sched s =
     (case resolve_playlist e url quality inp s of
        (Inl ex, s1) \<Rightarrow> (Inl ex, s1)
      | (Inr None, s1) \<Rightarrow> (Inr False, s1)
      | (Inr (Some playlist), s1) \<Rightarrow>
          (case download_segments e playlist url max_workers sched s1 of
             (Inl ex, s2) \<Rightarrow> (Inl ex, s2)
           | (Inr False, s2) \<Rightarrow> (Inr False, s2)
           | (Inr True, s2) \<Rightarrow>
               (case convert_to_mp4 e output_path s2 of
                  (False, s3) \<Rightarrow> (Inr False, s3)
                | (True, s3) \<Rightarrow> (Inr True, s3))))"

text \<open>\<^verbatim>\<open>except Exception\<close> prints the error and returns \<open>False\<close>;
  \<^verbatim>\<open>finally\<close> runs \<^verbatim>\<open>_cleanup\<close>.\<close>

definition download_m3u8 ::
  "env \<Rightarrow> string \<Rightarrow> string option \<Rightarrow> string option \<Rightarrow> int \<Rightarrow> input list \<Rightarrow> (nat \<Rightarrow> nat)
     \<Rightarrow> state \<Rightarrow> bool \<times> state" where
  "download_m3u8 e url output_path quality max_workers inp sched s =
     (case download_m3u8_try e url output_path quality max_workers inp sched s of
        (Inl ex, s1) \<Rightarrow> (False, cleanup e (print (ErrorMsg ex) s1))
      | (Inr b, s1) \<Rightarrow> (b, cleanup e s1))"

section \<open>Notions used to state the properties\<close>

text \<open>The address a task requests (\<open>None\<close> when joining it raises), the payload the
  network returns to the task (\<open>None\<close> when the address cannot be joined or the
  request fails), and whether the task succeeds once the temporary directory exists: it
  has a payload and its file can be written.\<close>

definition task_url :: "env \<Rightarrow> string \<Rightarrow> nat \<times> segment \<Rightarrow> string option" where
  "task_url e base_url t = urljoin e base_url (uri (snd t))"

definition task_payload :: "env \<Rightarrow> string \<Rightarrow> nat \<times> segment \<Rightarrow> string option" where
  "task_payload e base_url t =
     (case urljoin e base_url (uri (snd t)) of
        None \<Rightarrow> None
      | Some u \<Rightarrow>
          (case session_get e (Segment (fst t)) u of
             Response r \<Rightarrow> Some (resp_body r)
           | _ \<Rightarrow> None))"

definition task_ok :: "env \<Rightarrow> string \<Rightarrow> nat \<times> segment \<Rightarrow> bool" where
  "task_ok e base_url t = (task_payload e base_url t \<noteq> None \<and> write_ok e (SegmentFile (fst t)))"

text \<open>The requests a list of tasks sends: one for each task whose address can be joined.\<close>

definition task_requests :: "env \<Rightarrow> string \<Rightarrow> (nat \<times> segment) list \<Rightarrow> (request \<times> string) list" where
  "task_requests e base_url ts =
     concat (map (\<lambda>t. case task_url e base_url t of
                         None \<Rightarrow> []
                       | Some u \<Rightarrow> [(Segment (fst t), u)]) ts)"

text \<open>The file of the segment with a given index.\<close>

definition segment_path :: "string \<Rightarrow> nat \<Rightarrow> string" where
  "segment_path d index = path_join d (segment_name index)"

text \<open>The indices of the segments whose task fails, in playlist order.\<close>

definition failed_indices :: "env \<Rightarrow> string \<Rightarrow> m3u8 \<Rightarrow> nat list" where
  "failed_indices e base_url playlist =
     map fst (filter (\<lambda>t. \<not> task_ok e base_url t) (enumerate 0 (segments playlist)))"

text \<open>The order in which the tasks of a playlist complete.\<close>

definition completion :: "int \<Rightarrow> (nat \<Rightarrow> nat) \<Rightarrow> m3u8 \<Rightarrow> (nat \<times> segment) list" where
  "completion max_workers sched playlist =
     pool_completion (nat max_workers) sched 0 (enumerate 0 (segments playlist)) []"

text \<open>The state in which the pool of \<^verbatim>\<open>_download_segments\<close> starts: the temporary
  directory was created and the progress bar is at zero.\<close>

definition pool_start :: "env \<Rightarrow> string \<Rightarrow> state \<Rightarrow> state" where
  "pool_start e suffix s =
     s\<lparr>temp_dir := Some (mkdtemp e suffix), dirs := insert (mkdtemp e suffix) (dirs s), pbar := 0\<rparr>"

text \<open>Two states that differ at most in the requests sent and the messages printed.\<close>

definition same_but_io :: "state \<Rightarrow> state \<Rightarrow> bool" where
  "same_but_io s s' =
     (temp_dir s' = temp_dir s \<and> segment_files s' = segment_files s \<and> pbar s' = pbar s
      \<and> written s' = written s \<and> dirs s' = dirs s \<and> ffmpeg_calls s' = ffmpeg_calls s
      \<and> rmtree_calls s' = rmtree_calls s \<and> cleanups s' = cleanups s)"


text \<open>The variants that carry a resolution, the height of such a variant, and the
  first variant in manifest order among those of greatest height.\<close>

definition with_resolution :: "variant list \<Rightarrow> variant list" where
  "with_resolution vs = filter (\<lambda>v. resolution v \<noteq> None) vs"

definition height_of :: "variant \<Rightarrow> int" where
  "height_of v = snd (the (resolution v))"

definition first_of_max_height :: "variant list \<Rightarrow> variant" where
  "first_of_max_height vs =
     hd (filter (\<lambda>v. height_of v = Max (height_of ` set (with_resolution vs)))
           (with_resolution vs))"

text \<open>The same network, except that the final URL reported in each response is replaced:
  other redirects.\<close>

definition redirected :: "(request \<Rightarrow> string \<Rightarrow> string) \<Rightarrow> env \<Rightarrow> env" where
  "redirected f e =
     e\<lparr>session_get :=
         (\<lambda>rq u. case session_get e rq u of
                    Response r \<Rightarrow> Response (r\<lparr>resp_url := f rq u\<rparr>)
                  | other \<Rightarrow> other)\<rparr>"

text \<open>The output path \<^verbatim>\<open>_convert_to_mp4\<close> uses. A conversion attempt with a codec
  succeeds when \<^verbatim>\<open>self.temp_dir\<close> is set, \<^verbatim>\<open>concat.txt\<close> can be written and ffmpeg
  succeeds; it calls ffmpeg when it gets past the writing of \<^verbatim>\<open>concat.txt\<close>.\<close>

definition output_name :: "string option \<Rightarrow> state \<Rightarrow> string" where
  "output_name output_path s =
     (if output_path = None \<or> output_path = Some []
      then ''downloaded_video_'' @ str_nat (length (segment_files s)) @ ''_segments.mp4''
      else the output_path)"

definition attempt_ok :: "env \<Rightarrow> codec \<Rightarrow> string \<Rightarrow> state \<Rightarrow> bool" where
  "attempt_ok e c out s =
     (temp_dir s \<noteq> None \<and> write_ok e (ConcatFile c)
      \<and> ffmpeg_run e c (sort (segment_files s)) out)"

definition attempt_calls :: "env \<Rightarrow> codec \<Rightarrow> string \<Rightarrow> state \<Rightarrow> (codec \<times> string list \<times> string) list" where
  "attempt_calls e c out s =
     (if temp_dir s \<noteq> None \<and> write_ok e (ConcatFile c)
      then [(c, sort (segment_files s), out)] else [])"

subsection \<open>A concrete run\<close>

text \<open>A master playlist with the two variants 640x360 at 500000 bps and 1920x1080 at
  3000000 bps, a media playlist of five segments, and collaborators under which every
  call succeeds but the requests listed in \<open>failing\<close>. The master playlist is served
  after a redirect and with a query string; a segment address containing \<open>[\<close> cannot be
  joined.\<close>

definition example_master :: m3u8 where
  "example_master =
     \<lparr>playlists =
        [\<lparr>v_uri = ''low/index.m3u8'', resolution = Some (640, 360), bandwidth = Some 500000\<rparr>,
         \<lparr>v_uri = ''v/index.m3u8'', resolution = Some (1920, 1080), bandwidth = Some 3000000\<rparr>],
      segments = []\<rparr>"

definition example_media :: m3u8 where
  "example_media =
     \<lparr>playlists = [],
      segments = [\<lparr>uri = ''seg0.ts''\<rparr>, \<lparr>uri = ''seg1.ts''\<rparr>, \<lparr>uri = ''seg2.ts''\<rparr>,
                  \<lparr>uri = ''seg3.ts''\<rparr>, \<lparr>uri = ''seg4.ts''\<rparr>]\<rparr>"

text \<open>Two variants of the same height: the first listed has the lower bandwidth.\<close>

definition example_tie :: m3u8 where
  "example_tie =
     \<lparr>playlists =
        [\<lparr>v_uri = ''slow.m3u8'', resolution = Some (1920, 1080), bandwidth = Some 1000000\<rparr>,
         \<lparr>v_uri = ''fast.m3u8'', resolution = Some (1920, 1080), bandwidth = Some 3000000\<rparr>],
      segments = []\<rparr>"

definition example_url :: string where
  "example_url = ''http://h/a/master.m3u8?t=1''"

definition example_urljoin :: "string \<Rightarrow> string \<Rightarrow> string option" where
  "example_urljoin b r =
     (if CHR ''['' \<in> set r then None
      else if starts_with ''http'' r then Some r
      else Some (rev (dropWhile (\<lambda>c. c \<noteq> CHR ''/'') (rev b)) @ r))"

definition example_env :: "request list \<Rightarrow> env" where
  "example_env failing =
     \<lparr>session_get =
        (\<lambda>rq u. if rq \<in> set failing then Timeout
                else if u = ''http://h/a/master.m3u8?t=1''
                  then Response \<lparr>resp_url = ''http://cdn/z/master.m3u8?sig=9'',
                                 resp_body = ''MASTER''\<rparr>
                else if u = ''http://h/a/v/index.m3u8''
                  then Response \<lparr>resp_url = u, resp_body = ''MEDIA''\<rparr>
                else Response \<lparr>resp_url = u, resp_body = ''DATA''\<rparr>),
      m3u8_loads =
        (\<lambda>t. if t = ''MASTER'' then Some example_master
             else if t = ''MEDIA'' then Some example_media else None),
      urlparse =
        (\<lambda>u. if u = ''http://h/a/master.m3u8?t=1''
             then Some \<lparr>scheme = ''http'', netloc = ''h'', path = ''/a/master.m3u8'', params = [],
                        query = ''t=1'', fragment = []\<rparr>
             else None),
      urljoin = example_urljoin,
      gettempdir = ''/tmp'',
      mkdtemp_suffix = Some ''k3z9'',
      write_ok = (\<lambda>f. True),
      ffmpeg_run = (\<lambda>c files out. True),
      rmtree_ok = (\<lambda>d. True)\<rparr>"

text \<open>A scheduler that always lets the second of the running tasks finish first.\<close>

definition example_sched :: "nat \<Rightarrow> nat" where
  "example_sched step = 1"

text \<open>The state in which the pool starts in that run: the master and the media playlist
  were requested, the temporary directory exists.\<close>

definition example_pool_state :: state where
  "example_pool_state =
     new_downloader
       \<lparr>temp_dir := Some ''/tmp/m3u8_download_k3z9'',
        dirs := {''/tmp/m3u8_download_k3z9''},
        requests := [(Playlist 0, ''http://h/a/master.m3u8?t=1''),
                     (Playlist 1, ''http://h/a/v/index.m3u8'')]\<rparr>"

text \<open>The state of that run after all five segments were fetched, and collaborators
  under which ffmpeg fails with the codecs copied and succeeds when transcoding.\<close>

definition example_fetched_state :: state where
  "example_fetched_state =
      \<lparr>temp_dir = Some ''/tmp/m3u8_download_k3z9'',
       segment_files = [''/tmp/m3u8_download_k3z9/segment_00001.ts'', ''/tmp/m3u8_download_k3z9/segment_00002.ts'',
         ''/tmp/m3u8_download_k3z9/segment_00003.ts'', ''/tmp/m3u8_download_k3z9/segment_00004.ts'',
         ''/tmp/m3u8_download_k3z9/segment_00000.ts''],
       pbar = 5,
       requests = [(Playlist 0, ''http://h/a/master.m3u8?t=1''), (Playlist 1, ''http://h/a/v/index.m3u8''),
                   (Segment 1, ''http://h/a/seg1.ts''), (Segment 2, ''http://h/a/seg2.ts''),
                   (Segment 3, ''http://h/a/seg3.ts''), (Segment 4, ''http://h/a/seg4.ts''),
                   (Segment 0, ''http://h/a/seg0.ts'')],
       written = [(''/tmp/m3u8_download_k3z9/segment_00001.ts'', Bytes ''DATA''),
                  (''/tmp/m3u8_download_k3z9/segment_00002.ts'', Bytes ''DATA''),
                  (''/tmp/m3u8_download_k3z9/segment_00003.ts'', Bytes ''DATA''),
                  (''/tmp/m3u8_download_k3z9/segment_00004.ts'', Bytes ''DATA''),
                  (''/tmp/m3u8_download_k3z9/segment_00000.ts'', Bytes ''DATA'')],
       dirs = {''/tmp/m3u8_download_k3z9''}, stdout = [], ffmpeg_calls = [], rmtree_calls = [],
       cleanups = 0\<rparr>"

definition example_copy_fails :: env where
  "example_copy_fails = (example_env [])\<lparr>ffmpeg_run := (\<lambda>c files out. c = Transcode)\<rparr>"

section \<open>Properties of the thread pool\<close>

lemma mset_remove_nth:
  "j < length r \<Longrightarrow> add_mset (r ! j) (mset (take j r @ drop (Suc j) r)) = mset r"
proof -
  assume "j < length r"
  then have "r = take j r @ r ! j # drop (Suc j) r" by (rule id_take_nth_drop)
  then have "mset r = mset (take j r @ r ! j # drop (Suc j) r)" by simp
  then show ?thesis by simp
qed

text \<open>With at least one worker, every queued and every running task completes exactly
  once, whatever the scheduler does.\<close>

lemma mset_pool_completion:
  "0 < k \<Longrightarrow> mset (pool_completion k sched step queue running) = mset queue + mset running"
proof (induction k sched step queue running rule: pool_completion.induct)
  case (1 k sched step queue running)
  let ?r = "running @ take (k - length running) queue"
  let ?j = "sched step mod length ?r"
  show ?case
  proof (cases "?r = []")
    case True
    then have r: "running = []" by simp
    with True have "take k queue = []" by simp
    then have q: "queue = []" using "1.prems" by (cases queue) (auto simp: take_Cons')
    show ?thesis using r q by (subst pool_completion.simps) simp
  next
    case False
    then have j: "?j < length ?r" by simp
    have IH: "mset (pool_completion k sched (Suc step) (drop (k - length running) queue)
                 (take ?j ?r @ drop (Suc ?j) ?r))
              = mset (drop (k - length running) queue) + mset (take ?j ?r @ drop (Suc ?j) ?r)"
      using "1.IH"[OF False "1.prems"] .
    have split: "mset queue = mset (take (k - length running) queue) + mset (drop (k - length running) queue)"
      by (metis append_take_drop_id mset_append)
    have "mset (pool_completion k sched step queue running)
          = add_mset (?r ! ?j) (mset (drop (k - length running) queue) + mset (take ?j ?r @ drop (Suc ?j) ?r))"
      using False IH by (subst pool_completion.simps) (simp only: if_False mset.simps)
    also have "\<dots> = mset (drop (k - length running) queue) + mset ?r"
      using mset_remove_nth[OF j] by (metis add_mset_add_single union_mset_add_mset_right)
    also have "\<dots> = mset queue + mset running"
      using split by (simp only: mset_append) (simp add: ac_simps)
    finally show ?thesis .
  qed
qed

section \<open>Properties of the segment tasks\<close>

lemma task_requests_Cons:
  "task_requests e b (t # ts) = task_requests e b [t] @ task_requests e b ts"
  by (simp add: task_requests_def)

lemma task_requests_Nil [simp]: "task_requests e b [] = []"
  by (simp add: task_requests_def)

text \<open>What one task does once the temporary directory exists.\<close>

lemma download_segment_Some:
  "temp_dir s = Some d \<Longrightarrow>
   download_segment e b t s =
     (if task_ok e b t
      then (True, s\<lparr>requests := requests s @ task_requests e b [t],
                     written := written s @ [(segment_path d (fst t),
                                              Bytes (the (task_payload e b t)))],
                     segment_files := segment_files s @ [segment_path d (fst t)],
                     pbar := pbar s + 1\<rparr>)
      else (False, s\<lparr>requests := requests s @ task_requests e b [t],
                      stdout := stdout s @ [SegmentError (fst t)]\<rparr>))"
  by (cases t)
    (simp add: download_segment_def Let_def print_def task_ok_def task_payload_def
          task_requests_def task_url_def segment_path_def
          split: http_result.splits option.splits)

text \<open>What a sequence of tasks does to the state, once the temporary directory exists.\<close>

lemma run_tasks_Some:
  "temp_dir s = Some d \<Longrightarrow>
   run_tasks e b ts s =
     (map (\<lambda>t. (fst t, task_ok e b t)) ts,
      s\<lparr>requests := requests s @ task_requests e b ts,
        written := written s @ map (\<lambda>t. (segment_path d (fst t), Bytes (the (task_payload e b t))))
                                 (filter (task_ok e b) ts),
        segment_files := segment_files s
                         @ map (\<lambda>t. segment_path d (fst t)) (filter (task_ok e b) ts),
        pbar := pbar s + length (filter (task_ok e b) ts),
        stdout := stdout s @ map (\<lambda>t. SegmentError (fst t)) (filter (\<lambda>t. \<not> task_ok e b t) ts)\<rparr>)"
proof (induction ts arbitrary: s)
  case Nil
  then show ?case by simp
next
  case (Cons t ts)
  let ?s1 = "snd (download_segment e b t s)"
  have td: "temp_dir ?s1 = Some d" using Cons.prems by (simp add: download_segment_Some)
  show ?case
  proof (cases "task_ok e b t")
    case True
    show ?thesis using Cons.IH[OF td] True Cons.prems
      by (simp add: download_segment_Some task_requests_Cons[of e b t ts])
  next
    case False
    show ?thesis using Cons.IH[OF td] False Cons.prems
      by (simp add: download_segment_Some task_requests_Cons[of e b t ts])
  qed
qed

lemma map_snd_enumerate_comp: "map (\<lambda>t. f (snd t)) (enumerate n xs) = map f xs"
  by (induction xs arbitrary: n) simp_all

text \<open>The completion order of the pool is a rearrangement of the submitted tasks.\<close>

lemma mset_completion:
  "0 < max_workers \<Longrightarrow> mset (completion max_workers sched playlist) = mset (enumerate 0 (segments playlist))"
  by (simp add: completion_def mset_pool_completion)

lemma run_pool_Some:
  "temp_dir s = Some d \<Longrightarrow>
   run_pool e playlist b max_workers sched s
   = run_tasks e b (completion max_workers sched playlist) s"
  by (simp add: run_pool_def completion_def)

lemma mset_concat_map_perm:
  "mset xs = mset ys \<Longrightarrow> mset (concat (map f xs)) = mset (concat (map f ys))"
proof -
  assume a: "mset xs = mset ys"
  have "\<And>zs. mset (concat (map f zs)) = sum_mset (image_mset (\<lambda>z. mset (f z)) (mset zs))"
    by (induct_tac zs) simp_all
  then show ?thesis using a by simp
qed

lemma mset_task_requests_completion:
  "0 < max_workers \<Longrightarrow>
   mset (task_requests e b (completion max_workers sched playlist))
   = mset (task_requests e b (enumerate 0 (segments playlist)))"
  unfolding task_requests_def by (rule mset_concat_map_perm) (rule mset_completion)

lemma nth_in_enumerate: "i < length xs \<Longrightarrow> (i, xs ! i) \<in> set (enumerate 0 xs)"
  by (simp add: in_set_enumerate_eq)

text \<open>
  \<^bold>\<open>Claim C2.\<close> For every media playlist of \<open>N\<close> segments and every worker count
  \<open>max_workers \<ge> 1\<close>, under every scheduler, the pool produces exactly \<open>N\<close> results,
  one for each index below \<open>N\<close>; the result with index \<open>i\<close> is the outcome of the task
  of the \<open>i\<close>-th segment of the playlist; and the requests sent are one for each segment
  whose address can be joined, made by the task of that segment: no segment is fetched
  twice and no segment is skipped, whatever the worker count and the completion order.
\<close>

theorem run_pool_one_result_per_segment:
  assumes "1 \<le> max_workers" and "temp_dir s = Some d"
  shows "length (fst (run_pool e playlist base_url max_workers sched s)) = length (segments playlist)
       \<and> distinct (map fst (fst (run_pool e playlist base_url max_workers sched s)))
       \<and> set (map fst (fst (run_pool e playlist base_url max_workers sched s)))
           = {..<length (segments playlist)}
       \<and> (\<forall>i<length (segments playlist).
             (i, task_ok e base_url (i, segments playlist ! i))
               \<in> set (fst (run_pool e playlist base_url max_workers sched s)))
       \<and> mset (requests (snd (run_pool e playlist base_url max_workers sched s)))
           = mset (requests s)
             + mset (task_requests e base_url (enumerate 0 (segments playlist)))"
proof -
  let ?order = "completion max_workers sched playlist"
  let ?R = "fst (run_pool e playlist base_url max_workers sched s)"
  have w: "0 < max_workers" using assms(1) by simp
  have perm: "mset ?order = mset (enumerate 0 (segments playlist))"
    using w by (rule mset_completion)
  have R: "?R = map (\<lambda>t. (fst t, task_ok e base_url t)) ?order"
    using assms(2) by (simp add: run_pool_Some run_tasks_Some)
  have idx: "map fst ?R = map fst ?order" by (simp add: R comp_def)
  have "mset (map fst ?order) = mset (map fst (enumerate 0 (segments playlist)))"
    using perm by (metis mset_map)
  then have m: "mset (map fst ?order) = mset [0..<length (segments playlist)]"
    by (simp add: map_fst_enumerate)
  have len: "length ?R = length (segments playlist)"
    using arg_cong[OF m, of size] arg_cong[OF idx, of length] by simp
  have dist: "distinct (map fst ?R)"
    using m idx by (metis distinct_upt mset_eq_imp_distinct_iff)
  have st: "set (map fst ?R) = {..<length (segments playlist)}"
    using m idx by (metis atLeast_upt mset_eq_setD)
  have each: "\<forall>i<length (segments playlist).
                (i, task_ok e base_url (i, segments playlist ! i)) \<in> set ?R"
  proof (intro allI impI)
    fix i assume "i < length (segments playlist)"
    then have "(i, segments playlist ! i) \<in> set (enumerate 0 (segments playlist))"
      by (rule nth_in_enumerate)
    then have "(i, segments playlist ! i) \<in> set ?order"
      using perm by (metis mset_eq_setD)
    then have "(\<lambda>t. (fst t, task_ok e base_url t)) (i, segments playlist ! i) \<in> set ?R"
      unfolding R by (simp only: set_map) (rule imageI)
    then show "(i, task_ok e base_url (i, segments playlist ! i)) \<in> set ?R" by simp
  qed
  have rq: "mset (requests (snd (run_pool e playlist base_url max_workers sched s)))
            = mset (requests s) + mset (task_requests e base_url (enumerate 0 (segments playlist)))"
    using assms(2) mset_task_requests_completion[OF w, of e base_url sched playlist]
    by (simp add: run_pool_Some run_tasks_Some)
  show ?thesis using len dist st each rq by blast
qed

theorem run_pool_one_result_per_segment_witness:
  "(1::int) \<le> 2
   \<and> temp_dir example_pool_state = Some ''/tmp/m3u8_download_k3z9''
   \<and> length (fst (run_pool (example_env [Segment 1]) example_media example_url 2 example_sched
                    example_pool_state)) = 5
   \<and> distinct (map fst (fst (run_pool (example_env [Segment 1]) example_media example_url 2
                                example_sched example_pool_state)))
   \<and> set (map fst (fst (run_pool (example_env [Segment 1]) example_media example_url 2 example_sched
                          example_pool_state))) = {..<5}
   \<and> (0, task_ok (example_env [Segment 1]) example_url (0, segments example_media ! 0))
       \<in> set (fst (run_pool (example_env [Segment 1]) example_media example_url 2
                    example_sched example_pool_state))
   \<and> (1, task_ok (example_env [Segment 1]) example_url (1, segments example_media ! 1))
       \<in> set (fst (run_pool (example_env [Segment 1]) example_media example_url 2
                    example_sched example_pool_state))
   \<and> (2, task_ok (example_env [Segment 1]) example_url (2, segments example_media ! 2))
       \<in> set (fst (run_pool (example_env [Segment 1]) example_media example_url 2
                    example_sched example_pool_state))
   \<and> (3, task_ok (example_env [Segment 1]) example_url (3, segments example_media ! 3))
       \<in> set (fst (run_pool (example_env [Segment 1]) example_media example_url 2
                    example_sched example_pool_state))
   \<and> (4, task_ok (example_env [Segment 1]) example_url (4, segments example_media ! 4))
       \<in> set (fst (run_pool (example_env [Segment 1]) example_media example_url 2
                    example_sched example_pool_state))
   \<and> mset (requests (snd (run_pool (example_env [Segment 1]) example_media example_url 2 example_sched
                            example_pool_state)))
       = mset (requests example_pool_state)
         + mset (task_requests (example_env [Segment 1]) example_url
                   (enumerate 0 (segments example_media)))"
proof -
  have h1: "(1::int) \<le> 2" by simp
  have h2: "temp_dir example_pool_state = Some ''/tmp/m3u8_download_k3z9''"
    by (simp add: example_pool_state_def new_downloader_def)
  have l: "length (segments example_media) = 5" by (simp add: example_media_def)
  note t = run_pool_one_result_per_segment[OF h1 h2, of "example_env [Segment 1]" example_media
             example_url example_sched, unfolded l]
  have a: "\<And>i. i < 5 \<Longrightarrow>
             (i, task_ok (example_env [Segment 1]) example_url (i, segments example_media ! i))
             \<in> set (fst (run_pool (example_env [Segment 1]) example_media example_url 2
                            example_sched example_pool_state))"
    using t by blast
  have n: "(0::nat) < 5" "(1::nat) < 5" "(2::nat) < 5" "(3::nat) < 5" "(4::nat) < 5" by simp_all
  show ?thesis
    using t a[OF n(1)] a[OF n(2)] a[OF n(3)] a[OF n(4)] a[OF n(5)] h1 h2 by blast
qed

text \<open>The same run, computed: with two workers and a scheduler that always lets the
  second running task finish first, the first segment completes last; the request of the
  second segment times out.\<close>

lemma example_run_pool_results:
  "fst (run_pool (example_env [Segment 1]) example_media example_url 2 example_sched example_pool_state)
   = [(1, False), (2, True), (3, True), (4, True), (0, True)]"
  by (simp add: run_pool_def pool_completion.simps example_media_def download_segment_def
        example_env_def example_url_def example_urljoin_def Let_def print_def
        example_pool_state_def new_downloader_def example_sched_def enumerate_eq_zip upt_rec)

section \<open>Properties of \<^verbatim>\<open>_download_segments\<close>\<close>

lemma filter_snd_results:
  "filter snd (map (\<lambda>t. (fst t, P t)) ts) = map (\<lambda>t. (fst t, P t)) (filter P ts)"
  by (induction ts) simp_all

lemma length_filter_perm: "mset xs = mset ys \<Longrightarrow> length (filter P xs) = length (filter P ys)"
proof -
  assume "mset xs = mset ys"
  then have "mset (filter P xs) = mset (filter P ys)" by (simp only: mset_filter)
  then show ?thesis by (rule mset_eq_length)
qed

lemma success_count_completion:
  "0 < max_workers \<Longrightarrow>
   length (filter P (completion max_workers sched playlist))
   = length (filter P (enumerate 0 (segments playlist)))"
  by (rule length_filter_perm) (rule mset_completion)

lemma temp_dir_pool_start: "temp_dir (pool_start e suffix s) = Some (mkdtemp e suffix)"
  by (simp add: pool_start_def)

text \<open>The results of the pool in \<^verbatim>\<open>_download_segments\<close>.\<close>

lemma run_pool_results:
  "fst (run_pool e playlist b max_workers sched (pool_start e suffix s))
   = map (\<lambda>t. (fst t, task_ok e b t)) (completion max_workers sched playlist)"
  by (simp add: run_pool_Some[OF temp_dir_pool_start] run_tasks_Some[OF temp_dir_pool_start])

text \<open>What \<^verbatim>\<open>_download_segments\<close> does when the pool runs.\<close>

lemma download_segments_run:
  assumes "segments playlist \<noteq> []" "0 < max_workers" "mkdtemp_suffix e = Some suffix"
  shows "download_segments e playlist b max_workers sched s =
     (let order = completion max_workers sched playlist;
          s3 = s\<lparr>temp_dir := Some (mkdtemp e suffix), dirs := insert (mkdtemp e suffix) (dirs s),
                 pbar := length (filter (task_ok e b) order),
                 requests := requests s @ task_requests e b order,
                 written := written s
                    @ map (\<lambda>t. (segment_path (mkdtemp e suffix) (fst t),
                                 Bytes (the (task_payload e b t))))
                        (filter (task_ok e b) order),
                 segment_files := segment_files s
                    @ map (\<lambda>t. segment_path (mkdtemp e suffix) (fst t)) (filter (task_ok e b) order),
                 stdout := stdout s
                    @ map (\<lambda>t. SegmentError (fst t)) (filter (\<lambda>t. \<not> task_ok e b t) order)\<rparr>
      in if length (filter (task_ok e b) order) \<noteq> length (segments playlist)
         then (Inr False,
               print (FailedSegments
                        (length (segments playlist) - length (filter (task_ok e b) order))) s3)
         else (Inr True, s3))"
proof -
  let ?s2 = "s\<lparr>temp_dir := Some (mkdtemp e suffix), dirs := insert (mkdtemp e suffix) (dirs s),
               pbar := 0\<rparr>"
  have td: "temp_dir ?s2 = Some (mkdtemp e suffix)" by simp
  show ?thesis using assms
    by (simp add: download_segments_def run_pool_Some[OF td] run_tasks_Some[OF td] Let_def
          filter_snd_results print_def)
qed

lemma download_segments_pbar:
  assumes "segments playlist \<noteq> []" "0 < max_workers" "mkdtemp_suffix e = Some suffix"
  shows "pbar (snd (download_segments e playlist b max_workers sched s))
         = length (filter (task_ok e b) (enumerate 0 (segments playlist)))"
  using assms success_count_completion[of max_workers "task_ok e b" sched playlist]
  by (simp add: download_segments_run Let_def print_def)

subsection \<open>The progress bar\<close>

lemma example_task_ok:
  "filter (task_ok (example_env [Segment 1]) example_url) (enumerate 0 (segments example_media))
   = [(0, \<lparr>uri = ''seg0.ts''\<rparr>), (2, \<lparr>uri = ''seg2.ts''\<rparr>), (3, \<lparr>uri = ''seg3.ts''\<rparr>),
      (4, \<lparr>uri = ''seg4.ts''\<rparr>)]"
  by (simp add: task_ok_def task_payload_def example_env_def example_url_def
        example_media_def example_urljoin_def enumerate_eq_zip upt_rec)

text \<open>
  The progress bar is advanced by \<^verbatim>\<open>pbar.update(1)\<close> at the end of the \<^verbatim>\<open>try\<close>
  block of \<^verbatim>\<open>download_segment\<close>, after the file was written; the \<^verbatim>\<open>except\<close>
  branch does not touch it. With five segments of which the second times out, the count
  is 4 when the pool returns, not 5.
\<close>

theorem progress_every_fetch_counterexample:
  "pbar (snd (download_segments (example_env [Segment 1]) example_media example_url 4
                (\<lambda>n. 0) new_downloader)) = 4
   \<and> length (segments example_media) = 5"
proof -
  have "segments example_media \<noteq> []" by (simp add: example_media_def)
  moreover have "mkdtemp_suffix (example_env [Segment 1]) = Some ''k3z9''"
    by (simp add: example_env_def)
  ultimately have "pbar (snd (download_segments (example_env [Segment 1]) example_media
                          example_url 4 (\<lambda>n. 0) new_downloader))
             = length (filter (task_ok (example_env [Segment 1]) example_url)
                         (enumerate 0 (segments example_media)))"
    using download_segments_pbar[of example_media 4 "example_env [Segment 1]" "''k3z9''"] by simp
  then show ?thesis unfolding example_task_ok by (simp add: example_media_def)
qed

text \<open>
  \<^bold>\<open>Claim C7\<close> (amended). For every run of the segment fetcher pool (a playlist with
  segments, at least one worker, the temporary directory created), the progress sink is
  updated exactly once per task that succeeds and not at all for a task that fails: when
  \<^verbatim>\<open>_download_segments\<close> returns, the progress count equals the number of
  \<open>True\<close> results of the pool, which is the number of segments whose address was
  joined, whose request was answered and whose file was written; it equals the number of
  segments exactly when every task succeeded.
\<close>

theorem progress_once_per_successful_fetch:
  assumes "segments playlist \<noteq> []" "1 \<le> max_workers" "mkdtemp_suffix e = Some suffix"
  shows "pbar (snd (download_segments e playlist b max_workers sched s))
           = length (filter snd (fst (run_pool e playlist b max_workers sched (pool_start e suffix s))))
       \<and> pbar (snd (download_segments e playlist b max_workers sched s))
           = length (filter (task_ok e b) (enumerate 0 (segments playlist)))
       \<and> (pbar (snd (download_segments e playlist b max_workers sched s)) = length (segments playlist)
            \<longleftrightarrow> (\<forall>t \<in> set (enumerate 0 (segments playlist)). task_ok e b t))"
proof -
  have w: "0 < max_workers" using assms(2) by simp
  have p: "pbar (snd (download_segments e playlist b max_workers sched s))
           = length (filter (task_ok e b) (enumerate 0 (segments playlist)))"
    using assms(1) w assms(3) by (rule download_segments_pbar)
  have r: "length (filter snd (fst (run_pool e playlist b max_workers sched (pool_start e suffix s))))
           = length (filter (task_ok e b) (enumerate 0 (segments playlist)))"
    using success_count_completion[OF w, of "task_ok e b" sched playlist]
    by (simp add: run_pool_results filter_snd_results)
  have "length (filter (task_ok e b) (enumerate 0 (segments playlist)))
          = length (enumerate 0 (segments playlist))
        \<longleftrightarrow> (\<forall>t \<in> set (enumerate 0 (segments playlist)). task_ok e b t)"
    by (metis filter_True length_filter_less less_irrefl_nat)
  then have i: "length (filter (task_ok e b) (enumerate 0 (segments playlist)))
          = length (segments playlist)
        \<longleftrightarrow> (\<forall>t \<in> set (enumerate 0 (segments playlist)). task_ok e b t)"
    by simp
  show ?thesis using p r i by simp
qed

theorem progress_once_per_successful_fetch_witness:
  "segments example_media \<noteq> [] \<and> (1::int) \<le> 4
   \<and> mkdtemp_suffix (example_env [Segment 1]) = Some ''k3z9''
   \<and> pbar (snd (download_segments (example_env [Segment 1]) example_media example_url 4
                   (\<lambda>n. 0) new_downloader))
       = length (filter snd (fst (run_pool (example_env [Segment 1]) example_media example_url 4
                                    (\<lambda>n. 0) (pool_start (example_env [Segment 1]) ''k3z9''
                                                new_downloader))))
   \<and> pbar (snd (download_segments (example_env [Segment 1]) example_media example_url 4
                   (\<lambda>n. 0) new_downloader))
       = length (filter (task_ok (example_env [Segment 1]) example_url)
                   (enumerate 0 (segments example_media)))
   \<and> (pbar (snd (download_segments (example_env [Segment 1]) example_media example_url 4
                   (\<lambda>n. 0) new_downloader)) = length (segments example_media)
        \<longleftrightarrow> (\<forall>t \<in> set (enumerate 0 (segments example_media)).
                task_ok (example_env [Segment 1]) example_url t))"
proof -
  have h1: "segments example_media \<noteq> []" by (simp add: example_media_def)
  have h2: "(1::int) \<le> 4" by simp
  have h3: "mkdtemp_suffix (example_env [Segment 1]) = Some ''k3z9''"
    by (simp add: example_env_def)
  show ?thesis
    using progress_once_per_successful_fetch[OF h1 h2 h3, of example_url "\<lambda>n. 0" new_downloader]
          h1 h2 h3
    by blast
qed

subsection \<open>Failed tasks\<close>

lemma failed_completion:
  "0 < max_workers \<Longrightarrow>
   mset (map fst (filter (\<lambda>t. \<not> task_ok e b t) (completion max_workers sched playlist)))
   = mset (failed_indices e b playlist)"
proof -
  assume "0 < max_workers"
  then have "mset (completion max_workers sched playlist) = mset (enumerate 0 (segments playlist))"
    by (rule mset_completion)
  then have "mset (filter (\<lambda>t. \<not> task_ok e b t) (completion max_workers sched playlist))
             = mset (filter (\<lambda>t. \<not> task_ok e b t) (enumerate 0 (segments playlist)))"
    by (simp only: mset_filter)
  then show ?thesis unfolding failed_indices_def by (metis mset_map)
qed

lemma length_failed_indices:
  "length (failed_indices e b playlist)
   + length (filter (task_ok e b) (enumerate 0 (segments playlist)))
   = length (segments playlist)"
  using sum_length_filter_compl[of "task_ok e b" "enumerate 0 (segments playlist)"]
  by (simp add: failed_indices_def)

lemma failed_indices_nonempty:
  "\<exists>t \<in> set (enumerate 0 (segments playlist)). \<not> task_ok e b t \<Longrightarrow>
   0 < length (failed_indices e b playlist)"
  by (simp add: failed_indices_def filter_empty_conv)

lemma download_segments_failure:
  assumes "0 < max_workers" "mkdtemp_suffix e = Some suffix"
    "\<exists>t \<in> set (enumerate 0 (segments playlist)). \<not> task_ok e b t"
  shows "fst (download_segments e playlist b max_workers sched s) = Inr False"
    and "stdout (snd (download_segments e playlist b max_workers sched s))
         = stdout s
           @ map SegmentError
               (map fst (filter (\<lambda>t. \<not> task_ok e b t) (completion max_workers sched playlist)))
           @ [FailedSegments (length (failed_indices e b playlist))]"
proof -
  have ne: "segments playlist \<noteq> []" using assms(3) by auto
  have pos: "0 < length (failed_indices e b playlist)"
    using assms(3) by (rule failed_indices_nonempty)
  have cnt: "length (filter (task_ok e b) (completion max_workers sched playlist))
             = length (filter (task_ok e b) (enumerate 0 (segments playlist)))"
    using assms(1) by (rule success_count_completion)
  have less: "length (filter (task_ok e b) (completion max_workers sched playlist))
              \<noteq> length (segments playlist)"
    using pos cnt length_failed_indices[of e b playlist] by linarith
  have k: "length (segments playlist)
             - length (filter (task_ok e b) (completion max_workers sched playlist))
           = length (failed_indices e b playlist)"
    using cnt length_failed_indices[of e b playlist] by linarith
  show "fst (download_segments e playlist b max_workers sched s) = Inr False"
    using less by (simp add: download_segments_run[OF ne assms(1) assms(2)] Let_def)
  show "stdout (snd (download_segments e playlist b max_workers sched s))
         = stdout s
           @ map SegmentError
               (map fst (filter (\<lambda>t. \<not> task_ok e b t) (completion max_workers sched playlist)))
           @ [FailedSegments (length (failed_indices e b playlist))]"
    using less k by (simp add: download_segments_run[OF ne assms(1) assms(2)] Let_def print_def)
qed

lemma example_failed_indices:
  "failed_indices (example_env [Segment 0]) example_url example_media = [0]"
  "failed_indices (example_env [Segment 3]) example_url example_media = [3]"
  by (simp_all add: failed_indices_def task_ok_def task_payload_def example_env_def
        example_url_def example_media_def example_urljoin_def enumerate_eq_zip upt_rec)

lemma example_some_task_fails:
  "\<exists>t \<in> set (enumerate 0 (segments example_media)). \<not> task_ok (example_env [Segment 0]) example_url t"
  "\<exists>t \<in> set (enumerate 0 (segments example_media)). \<not> task_ok (example_env [Segment 3]) example_url t"
  by (simp_all add: task_ok_def task_payload_def example_env_def
        example_url_def example_media_def example_urljoin_def enumerate_eq_zip upt_rec)

text \<open>
  \<^verbatim>\<open>_download_segments\<close> returns a boolean, and the message it prints on failure
  carries the number \<^verbatim>\<open>len(playlist.segments) - success_count\<close>. Two runs on the
  same playlist, one in which the first segment times out and one in which the fourth
  does, return the same value and end with the same message: what is returned and
  reported there does not tell which indices failed.
\<close>

theorem failed_indices_in_error_counterexample:
  "fst (download_segments (example_env [Segment 0]) example_media example_url 4
          (\<lambda>n. 0) new_downloader) = Inr False
   \<and> last (stdout (snd (download_segments (example_env [Segment 0]) example_media
                          example_url 4 (\<lambda>n. 0) new_downloader))) = FailedSegments 1
   \<and> failed_indices (example_env [Segment 0]) example_url example_media = [0]
   \<and> fst (download_segments (example_env [Segment 3]) example_media example_url 4
          (\<lambda>n. 0) new_downloader) = Inr False
   \<and> last (stdout (snd (download_segments (example_env [Segment 3]) example_media
                          example_url 4 (\<lambda>n. 0) new_downloader))) = FailedSegments 1
   \<and> failed_indices (example_env [Segment 3]) example_url example_media = [3]"
proof -
  have w: "(0::int) < 4" by simp
  have m0: "mkdtemp_suffix (example_env [Segment 0]) = Some ''k3z9''"
    and m3: "mkdtemp_suffix (example_env [Segment 3]) = Some ''k3z9''"
    by (simp_all add: example_env_def)
  show ?thesis
    using download_segments_failure[OF w m0 example_some_task_fails(1), of "\<lambda>n. 0" new_downloader]
          download_segments_failure[OF w m3 example_some_task_fails(2), of "\<lambda>n. 0" new_downloader]
    by (simp add: example_failed_indices)
qed

text \<open>
  \<^bold>\<open>Claim C8\<close> (amended). For every run of \<^verbatim>\<open>_download_segments\<close> (at least one
  worker, temporary directory created) in which the task of at least one segment fails,
  the function returns \<open>False\<close>, so that no assembly follows, and its final message
  carries the number of failed segments, not their indices. The failed indices are named
  one by one in the messages that the failing tasks print themselves, in completion
  order: these messages name exactly the failed indices, each once.
\<close>

theorem failed_segments_reported:
  assumes "1 \<le> max_workers" "mkdtemp_suffix e = Some suffix"
    "\<exists>t \<in> set (enumerate 0 (segments playlist)). \<not> task_ok e b t"
  shows "fst (download_segments e playlist b max_workers sched s) = Inr False
       \<and> stdout (snd (download_segments e playlist b max_workers sched s))
           = stdout s
             @ map SegmentError
                 (map fst (filter (\<lambda>t. \<not> task_ok e b t) (completion max_workers sched playlist)))
             @ [FailedSegments (length (failed_indices e b playlist))]
       \<and> mset (map fst (filter (\<lambda>t. \<not> task_ok e b t) (completion max_workers sched playlist)))
           = mset (failed_indices e b playlist)
       \<and> 0 < length (failed_indices e b playlist)"
proof -
  have w: "0 < max_workers" using assms(1) by simp
  show ?thesis
    using download_segments_failure[OF w assms(2) assms(3), of sched s]
          failed_completion[OF w, of e b sched playlist]
          failed_indices_nonempty[OF assms(3)]
    by simp
qed

theorem failed_segments_reported_witness:
  "(1::int) \<le> 4
   \<and> mkdtemp_suffix (example_env [Segment 3]) = Some ''k3z9''
   \<and> (\<exists>t \<in> set (enumerate 0 (segments example_media)).
         \<not> task_ok (example_env [Segment 3]) example_url t)
   \<and> fst (download_segments (example_env [Segment 3]) example_media example_url 4
            (\<lambda>n. 0) new_downloader) = Inr False
   \<and> stdout (snd (download_segments (example_env [Segment 3]) example_media example_url 4
                     (\<lambda>n. 0) new_downloader))
       = stdout new_downloader
         @ map SegmentError
             (map fst (filter (\<lambda>t. \<not> task_ok (example_env [Segment 3]) example_url t)
                         (completion 4 (\<lambda>n. 0) example_media)))
         @ [FailedSegments 1]
   \<and> mset (map fst (filter (\<lambda>t. \<not> task_ok (example_env [Segment 3]) example_url t)
                      (completion 4 (\<lambda>n. 0) example_media))) = {#3#}
   \<and> 0 < length (failed_indices (example_env [Segment 3]) example_url example_media)"
proof -
  have w: "(1::int) \<le> 4" by simp
  have m3: "mkdtemp_suffix (example_env [Segment 3]) = Some ''k3z9''"
    by (simp add: example_env_def)
  show ?thesis
    using failed_segments_reported[OF w m3 example_some_task_fails(2), of "\<lambda>n. 0" new_downloader]
          example_some_task_fails(2) m3
    by (simp add: example_failed_indices)
qed

text \<open>The messages of that run, computed.\<close>

lemma example_failure_stdout:
  "stdout (snd (download_segments (example_env [Segment 3]) example_media example_url 4
                  (\<lambda>n. 0) new_downloader)) = [SegmentError 3, FailedSegments 1]"
  by (simp add: download_segments_def run_pool_def pool_completion.simps example_media_def
        download_segment_def example_env_def example_url_def example_urljoin_def Let_def
        print_def new_downloader_def mkdtemp_def path_join_def enumerate_eq_zip upt_rec)

section \<open>Properties of the pipeline\<close>

subsection \<open>What each stage leaves untouched\<close>

lemma same_but_io_refl [simp]: "same_but_io s s"
  by (simp add: same_but_io_def)

lemma same_but_io_trans: "same_but_io s s1 \<Longrightarrow> same_but_io s1 s2 \<Longrightarrow> same_but_io s s2"
  by (simp add: same_but_io_def)

lemma same_but_io_stdout [simp]: "same_but_io s (s1\<lparr>stdout := ms\<rparr>) = same_but_io s s1"
  by (simp add: same_but_io_def)

lemma parse_playlist_io:
  "parse_playlist e k url s = (r, s1) \<Longrightarrow>
   same_but_io s s1 \<and> requests s1 = requests s @ [(Playlist k, url)]"
  by (auto simp: parse_playlist_def Let_def print_def same_but_io_def
           split: http_result.splits option.splits)

lemma resolve_playlist_io:
  assumes "resolve_playlist e url quality inp s = (r, s0)"
  shows "same_but_io s s0"
proof -
  obtain r1 s1 where p1: "parse_playlist e 0 url s = (r1, s1)" by (cases "parse_playlist e 0 url s")
  have io1: "same_but_io s s1" using parse_playlist_io[OF p1] by simp
  have io2: "\<And>u ms r2 s2. parse_playlist e 1 u (s1\<lparr>stdout := stdout s1 @ ms\<rparr>) = (r2, s2)
               \<Longrightarrow> same_but_io s s2"
  proof -
    fix u ms r2 s2
    assume "parse_playlist e 1 u (s1\<lparr>stdout := stdout s1 @ ms\<rparr>) = (r2, s2)"
    then have "same_but_io (s1\<lparr>stdout := stdout s1 @ ms\<rparr>) s2" using parse_playlist_io by blast
    moreover have "same_but_io s (s1\<lparr>stdout := stdout s1 @ ms\<rparr>)" using io1 by simp
    ultimately show "same_but_io s s2" by (rule same_but_io_trans[rotated])
  qed
  show ?thesis
    using assms io1 io2
    by (auto simp: resolve_playlist_def p1 Let_def
             split: option.splits prod.splits sum.splits if_splits)
qed









subsection \<open>The concrete run, computed\<close>

text \<open>The run of \<^verbatim>\<open>download_m3u8\<close> on the example of the previous section, with
  quality \<^verbatim>\<open>best\<close> and two workers, evaluated stage by stage.\<close>

lemma example_select_best:
  "select_quality example_master (Some ''best'') [] = (Inr (Some ''v/index.m3u8''), [])"
  by (simp add: select_quality_def example_master_def sort_qualities_def height_key_def
        sort_reverse_def first_quality_def str_int_def str_nat.simps digit_char_def
        int_of_str_def nat_of_str_def is_digit_def digit_val_def)

lemma example_master_variants: "playlists example_master \<noteq> []"
  by (simp add: example_master_def)



lemma example_resolve:
  "resolve_playlist (example_env F) example_url (Some ''best'') [] new_downloader
   = (if Playlist 0 \<in> set F then (Inl AttributeError, new_downloader\<lparr>requests := [(Playlist 0, example_url)], stdout := [TimeoutMsg]\<rparr>)
      else if Playlist 1 \<in> set F then (Inr None, new_downloader\<lparr>requests := [(Playlist 0, example_url), (Playlist 1, ''http://h/a/v/index.m3u8'')], stdout := [TimeoutMsg]\<rparr>)
      else (Inr (Some example_media), new_downloader\<lparr>requests := [(Playlist 0, example_url), (Playlist 1, ''http://h/a/v/index.m3u8'')]\<rparr>))"
  by (simp add: resolve_playlist_def parse_playlist_def example_select_best Let_def print_def
        example_env_def example_url_def example_urljoin_def new_downloader_def example_master_variants)

lemma example_sorted_files:
  "sort [''/tmp/m3u8_download_k3z9/segment_00001.ts'', ''/tmp/m3u8_download_k3z9/segment_00002.ts'',
         ''/tmp/m3u8_download_k3z9/segment_00003.ts'', ''/tmp/m3u8_download_k3z9/segment_00004.ts'',
         ''/tmp/m3u8_download_k3z9/segment_00000.ts'']
   = [''/tmp/m3u8_download_k3z9/segment_00000.ts'', ''/tmp/m3u8_download_k3z9/segment_00001.ts'',
      ''/tmp/m3u8_download_k3z9/segment_00002.ts'', ''/tmp/m3u8_download_k3z9/segment_00003.ts'',
      ''/tmp/m3u8_download_k3z9/segment_00004.ts'']"
  by simp

lemma example_str_5: "str_nat 5 = ''5''"
  by (simp add: str_nat.simps digit_char_def)

lemma example_str_5_Suc: "str_nat (Suc (Suc (Suc (Suc (Suc 0))))) = ''5''"
  using example_str_5 by (simp add: eval_nat_numeral)




subsection \<open>Cleanup\<close>



subsection \<open>A failed fetch refuses the conversion\<close>

text \<open>\<^verbatim>\<open>_cleanup\<close> touches neither the requests, the files written nor the
  calls of ffmpeg; it prints at most its warning.\<close>

lemma cleanup_frame:
  "requests (cleanup e s) = requests s"
  "written (cleanup e s) = written s"
  "ffmpeg_calls (cleanup e s) = ffmpeg_calls s"
  "segment_files (cleanup e s) = segment_files s"
  "pbar (cleanup e s) = pbar s"
  by (simp_all add: cleanup_def Let_def print_def split: option.splits)

lemma cleanup_stdout:
  "stdout (cleanup e s) = stdout s \<or> stdout (cleanup e s) = stdout s @ [CleanupWarning]"
  by (simp add: cleanup_def Let_def print_def split: option.splits)

lemma download_m3u8_fetch_failure:
  assumes r: "resolve_playlist e url quality inp s = (Inr (Some playlist), s0)"
    and w: "0 < max_workers" and m: "mkdtemp_suffix e = Some suffix"
    and f: "\<exists>t \<in> set (enumerate 0 (segments playlist)). \<not> task_ok e url t"
  shows "download_m3u8 e url output_path quality max_workers inp sched s
         = (False, cleanup e (snd (download_segments e playlist url max_workers sched s0)))"
  unfolding download_m3u8_def download_m3u8_try_def r
  using download_segments_failure(1)[OF w m f, of sched s0]
  by (cases "download_segments e playlist url max_workers sched s0") simp

lemma example_failed_index_1:
  "failed_indices (example_env [Segment 1]) example_url example_media = [1]"
  by (simp add: failed_indices_def task_ok_def task_payload_def example_env_def
        example_url_def example_urljoin_def example_media_def enumerate_eq_zip upt_rec)

text \<open>
  \<^bold>\<open>Claim C5.\<close> In every run of \<^verbatim>\<open>download_m3u8\<close> that reaches the download of a
  playlist of \<open>N\<close> segments with at least one worker, and in which the task of at
  least one segment fails: the pool still runs all \<open>N\<close> tasks (it returns \<open>N\<close>
  results, and every segment whose address can be joined is requested, each once);
  the number of failed segments is printed; \<^verbatim>\<open>download_m3u8\<close> returns
  \<open>False\<close>; ffmpeg is never called and the only files written are those of the
  segments that succeeded, so nothing is assembled from the partial set.
\<close>

theorem failed_fetch_refuses_remux:
  assumes "resolve_playlist e url quality inp s = (Inr (Some playlist), s0)"
    and "1 \<le> max_workers" and "mkdtemp_suffix e = Some suffix"
    and "\<exists>t \<in> set (enumerate 0 (segments playlist)). \<not> task_ok e url t"
  shows "fst (download_m3u8 e url output_path quality max_workers inp sched s) = False
       \<and> ffmpeg_calls (snd (download_m3u8 e url output_path quality max_workers inp sched s))
           = ffmpeg_calls s
       \<and> written (snd (download_m3u8 e url output_path quality max_workers inp sched s))
           = written s
             @ map (\<lambda>t. (segment_path (mkdtemp e suffix) (fst t), Bytes (the (task_payload e url t))))
                 (filter (task_ok e url) (completion max_workers sched playlist))
       \<and> length (fst (run_pool e playlist url max_workers sched (pool_start e suffix s0)))
           = length (segments playlist)
       \<and> requests (snd (download_m3u8 e url output_path quality max_workers inp sched s))
           = requests s0 @ task_requests e url (completion max_workers sched playlist)
       \<and> mset (task_requests e url (completion max_workers sched playlist))
           = mset (task_requests e url (enumerate 0 (segments playlist)))
       \<and> FailedSegments (length (failed_indices e url playlist))
           \<in> set (stdout (snd (download_m3u8 e url output_path quality max_workers inp sched s)))
       \<and> 0 < length (failed_indices e url playlist)"
proof -
  have w: "0 < max_workers" using assms(2) by simp
  have ne: "segments playlist \<noteq> []" using assms(4) by auto
  have io: "same_but_io s s0" using assms(1) by (rule resolve_playlist_io)
  let ?s2 = "snd (download_segments e playlist url max_workers sched s0)"
  have run: "download_m3u8 e url output_path quality max_workers inp sched s
             = (False, cleanup e ?s2)"
    using assms(1) w assms(3) assms(4) by (rule download_m3u8_fetch_failure)
  have so: "stdout ?s2
         = stdout s0
           @ map SegmentError
               (map fst (filter (\<lambda>t. \<not> task_ok e url t) (completion max_workers sched playlist)))
           @ [FailedSegments (length (failed_indices e url playlist))]"
    using w assms(3) assms(4) by (rule download_segments_failure(2))
  have fields: "ffmpeg_calls ?s2 = ffmpeg_calls s0"
    "written ?s2 = written s0
             @ map (\<lambda>t. (segment_path (mkdtemp e suffix) (fst t), Bytes (the (task_payload e url t))))
                 (filter (task_ok e url) (completion max_workers sched playlist))"
    "requests ?s2 = requests s0 @ task_requests e url (completion max_workers sched playlist)"
    unfolding download_segments_run[OF ne w assms(3)] by (simp_all add: Let_def print_def)
  have c1: "fst (download_m3u8 e url output_path quality max_workers inp sched s) = False"
    unfolding run by simp
  have c2: "ffmpeg_calls (snd (download_m3u8 e url output_path quality max_workers inp sched s))
           = ffmpeg_calls s"
    unfolding run using io by (simp add: cleanup_frame fields same_but_io_def)
  have c3: "written (snd (download_m3u8 e url output_path quality max_workers inp sched s))
           = written s
             @ map (\<lambda>t. (segment_path (mkdtemp e suffix) (fst t), Bytes (the (task_payload e url t))))
                 (filter (task_ok e url) (completion max_workers sched playlist))"
    unfolding run using io by (simp add: cleanup_frame fields same_but_io_def)
  have c4: "length (fst (run_pool e playlist url max_workers sched (pool_start e suffix s0)))
           = length (segments playlist)"
    unfolding run_pool_results using mset_eq_length[OF mset_completion[OF w, of sched playlist]]
    by simp
  have c5: "requests (snd (download_m3u8 e url output_path quality max_workers inp sched s))
           = requests s0 @ task_requests e url (completion max_workers sched playlist)"
    unfolding run by (simp add: cleanup_frame fields)
  have c6: "mset (task_requests e url (completion max_workers sched playlist))
           = mset (task_requests e url (enumerate 0 (segments playlist)))"
    using w by (rule mset_task_requests_completion)
  have c7: "FailedSegments (length (failed_indices e url playlist))
           \<in> set (stdout (snd (download_m3u8 e url output_path quality max_workers inp sched s)))"
    unfolding run using cleanup_stdout[of e ?s2] so by auto
  have c8: "0 < length (failed_indices e url playlist)"
    using assms(4) by (rule failed_indices_nonempty)
  show ?thesis using c1 c2 c3 c4 c5 c6 c7 c8 by blast
qed

theorem failed_fetch_refuses_remux_witness:
  "resolve_playlist (example_env [Segment 1]) example_url (Some ''best'') [] new_downloader
     = (Inr (Some example_media), (new_downloader\<lparr>requests := [(Playlist 0, example_url),
                                              (Playlist 1, ''http://h/a/v/index.m3u8'')]\<rparr>))
   \<and> (1::int) \<le> 2
   \<and> mkdtemp_suffix (example_env [Segment 1]) = Some ''k3z9''
   \<and> (\<exists>t \<in> set (enumerate 0 (segments example_media)).
         \<not> task_ok (example_env [Segment 1]) example_url t)
   \<and> fst (download_m3u8 (example_env [Segment 1]) example_url None (Some ''best'') 2 [] example_sched
                    new_downloader) = False
   \<and> ffmpeg_calls (snd (download_m3u8 (example_env [Segment 1]) example_url None (Some ''best'') 2 [] example_sched
                    new_downloader)) = []
   \<and> written (snd (download_m3u8 (example_env [Segment 1]) example_url None (Some ''best'') 2 [] example_sched
                    new_downloader))
       = written new_downloader
         @ map (\<lambda>t. (segment_path (mkdtemp (example_env [Segment 1]) ''k3z9'') (fst t),
                       Bytes (the (task_payload (example_env [Segment 1]) example_url t))))
             (filter (task_ok (example_env [Segment 1]) example_url)
                (completion 2 example_sched example_media))
   \<and> length (fst (run_pool (example_env [Segment 1]) example_media example_url 2 example_sched
                    (pool_start (example_env [Segment 1]) ''k3z9''
                       (new_downloader\<lparr>requests := [(Playlist 0, example_url),
                                              (Playlist 1, ''http://h/a/v/index.m3u8'')]\<rparr>)))) = 5
   \<and> requests (snd (download_m3u8 (example_env [Segment 1]) example_url None (Some ''best'') 2 [] example_sched
                    new_downloader))
       = requests (new_downloader\<lparr>requests := [(Playlist 0, example_url),
                                              (Playlist 1, ''http://h/a/v/index.m3u8'')]\<rparr>)
         @ task_requests (example_env [Segment 1]) example_url
             (completion 2 example_sched example_media)
   \<and> mset (task_requests (example_env [Segment 1]) example_url
               (completion 2 example_sched example_media))
       = mset (task_requests (example_env [Segment 1]) example_url
                 (enumerate 0 (segments example_media)))
   \<and> FailedSegments 1 \<in> set (stdout (snd (download_m3u8 (example_env [Segment 1]) example_url None (Some ''best'') 2 [] example_sched
                    new_downloader)))
   \<and> 0 < (1::nat)"
proof -
  have h1: "resolve_playlist (example_env [Segment 1]) example_url (Some ''best'') [] new_downloader
     = (Inr (Some example_media), (new_downloader\<lparr>requests := [(Playlist 0, example_url),
                                              (Playlist 1, ''http://h/a/v/index.m3u8'')]\<rparr>))"
    by (simp add: example_resolve)
  have h2: "(1::int) \<le> 2" by simp
  have h3: "mkdtemp_suffix (example_env [Segment 1]) = Some ''k3z9''"
    by (simp add: example_env_def)
  have fl: "length (failed_indices (example_env [Segment 1]) example_url example_media) = 1"
    unfolding example_failed_index_1 by simp
  have h4: "\<exists>t \<in> set (enumerate 0 (segments example_media)).
              \<not> task_ok (example_env [Segment 1]) example_url t"
  proof (rule ccontr)
    assume "\<not> (\<exists>t \<in> set (enumerate 0 (segments example_media)).
                 \<not> task_ok (example_env [Segment 1]) example_url t)"
    then have "filter (\<lambda>t. \<not> task_ok (example_env [Segment 1]) example_url t)
                 (enumerate 0 (segments example_media)) = []"
      unfolding filter_empty_conv by blast
    then show False using fl unfolding failed_indices_def by simp
  qed
  have l: "length (segments example_media) = 5" by (simp add: example_media_def)
  have f: "ffmpeg_calls new_downloader = []" by (simp add: new_downloader_def)
  show ?thesis
    using failed_fetch_refuses_remux[OF h1 h2 h3 h4, of None example_sched] h1 h2 h3 h4
    unfolding fl l f by blast
qed

subsection \<open>Conversion: copy first, one fallback\<close>

text \<open>\<^verbatim>\<open>_convert_alternative\<close> in one equation.\<close>

lemma convert_alternative_result:
  "convert_alternative e out s
   = (attempt_ok e Transcode out s,
      s\<lparr>written := written s
            @ (if temp_dir s \<noteq> None \<and> write_ok e (ConcatFile Transcode)
               then [(path_join (the (temp_dir s)) ''concat.txt'',
                      Lines (concat_lines (sort (segment_files s))))]
               else []),
        ffmpeg_calls := ffmpeg_calls s @ attempt_calls e Transcode out s,
        stdout := stdout s @ (if attempt_ok e Transcode out s then [] else [AlternativeFailed])\<rparr>)"
  by (cases "temp_dir s")
     (simp_all add: convert_alternative_def attempt_ok_def attempt_calls_def Let_def print_def)

lemma example_fetched_files: "segment_files example_fetched_state \<noteq> []"
  by (simp add: example_fetched_state_def)

lemma example_output_name:
  "output_name None example_fetched_state = ''downloaded_video_5_segments.mp4''"
  by (simp add: output_name_def example_fetched_state_def example_str_5_Suc)

lemma example_sorted_fetched:
  "sort (segment_files example_fetched_state)
   = [''/tmp/m3u8_download_k3z9/segment_00000.ts'', ''/tmp/m3u8_download_k3z9/segment_00001.ts'',
      ''/tmp/m3u8_download_k3z9/segment_00002.ts'', ''/tmp/m3u8_download_k3z9/segment_00003.ts'',
      ''/tmp/m3u8_download_k3z9/segment_00004.ts'']"
  by (simp add: example_fetched_state_def)

text \<open>
  \<^bold>\<open>Claim C6.\<close> Whenever there are segment files, \<^verbatim>\<open>_convert_to_mp4\<close> first
  attempts the conversion with the codecs copied. If that attempt succeeds, nothing else
  is run. If and only if it fails, \<^verbatim>\<open>_convert_alternative\<close> is run, once: the error
  of the first attempt is printed once and ffmpeg is called at most once more, with
  \<^verbatim>\<open>libx264\<close> and \<^verbatim>\<open>aac\<close>. The value returned is \<open>True\<close> exactly when
  the copy or else the fallback succeeded, so \<open>False\<close> when both failed: the caller
  receives the final outcome only, a failed copy followed by a successful fallback
  returns \<open>True\<close>.
\<close>

theorem remux_copy_then_transcode_once:
  assumes "segment_files s \<noteq> []"
  shows "fst (convert_to_mp4 e output_path s)
           = (attempt_ok e Copy (output_name output_path s) s
              \<or> attempt_ok e Transcode (output_name output_path s) s)
       \<and> ffmpeg_calls (snd (convert_to_mp4 e output_path s))
           = ffmpeg_calls s
             @ attempt_calls e Copy (output_name output_path s) s
             @ (if attempt_ok e Copy (output_name output_path s) s then []
                else attempt_calls e Transcode (output_name output_path s) s)
       \<and> stdout (snd (convert_to_mp4 e output_path s))
           = stdout s
             @ (if attempt_ok e Copy (output_name output_path s) s then []
                else ConversionError
                     # (if attempt_ok e Transcode (output_name output_path s) s then []
                        else [AlternativeFailed]))"
  using assms
  by (cases "temp_dir s")
     (simp_all add: convert_to_mp4_def convert_alternative_result output_name_def
        attempt_ok_def attempt_calls_def Let_def print_def)

theorem remux_copy_then_transcode_once_witness:
  "segment_files example_fetched_state \<noteq> []
   \<and> \<not> attempt_ok example_copy_fails Copy ''downloaded_video_5_segments.mp4'' example_fetched_state
   \<and> attempt_ok example_copy_fails Transcode ''downloaded_video_5_segments.mp4'' example_fetched_state
   \<and> fst (convert_to_mp4 example_copy_fails None example_fetched_state) = True
   \<and> ffmpeg_calls (snd (convert_to_mp4 example_copy_fails None example_fetched_state))
       = [(Copy, sort (segment_files example_fetched_state), ''downloaded_video_5_segments.mp4''),
          (Transcode, sort (segment_files example_fetched_state), ''downloaded_video_5_segments.mp4'')]
   \<and> stdout (snd (convert_to_mp4 example_copy_fails None example_fetched_state))
       = [ConversionError]"
proof -
  have a: "\<not> attempt_ok example_copy_fails Copy ''downloaded_video_5_segments.mp4''
               example_fetched_state"
    by (simp add: attempt_ok_def example_copy_fails_def)
  have b: "attempt_ok example_copy_fails Transcode ''downloaded_video_5_segments.mp4''
             example_fetched_state"
    by (simp add: attempt_ok_def example_copy_fails_def example_env_def example_fetched_state_def)
  have c: "attempt_calls example_copy_fails Copy ''downloaded_video_5_segments.mp4''
             example_fetched_state
           = [(Copy, sort (segment_files example_fetched_state), ''downloaded_video_5_segments.mp4'')]"
    "attempt_calls example_copy_fails Transcode ''downloaded_video_5_segments.mp4''
             example_fetched_state
           = [(Transcode, sort (segment_files example_fetched_state),
               ''downloaded_video_5_segments.mp4'')]"
    by (simp_all add: attempt_calls_def example_copy_fails_def example_env_def
          example_fetched_state_def)
  have d: "ffmpeg_calls example_fetched_state = []" "stdout example_fetched_state = []"
    by (simp_all add: example_fetched_state_def)
  show ?thesis
    using remux_copy_then_transcode_once[OF example_fetched_files, of example_copy_fails None]
          example_fetched_files a b
    unfolding example_output_name
    by (simp add: c d)
qed

end
